theory Spec2Isabelle
  imports Complex_Main "HOL-Library.AList" "HOL-Library.Sublist"
begin

section \<open>Values held in a table cell\<close>

text \<open>
  A float64 is kept as the real number it denotes, or one of the three special values.
  Comparisons against the constants of the script (0, 25, 50, 75) are exact on that
  reading; the rounding of sums and quotients is not modelled.
\<close>

datatype pyfloat = Fin real | PInf | NInf | NaN

text \<open>
  The values a cell of a pandas table holds in this script: what \<open>read_csv\<close> yields
  (integers, floats with NaN for an empty field, text, booleans), the \<open>None\<close> the
  script stores in \<open>lev_clean\<close>, and the timestamps the loader derives (nanoseconds since
  the epoch, \<open>CTime None\<close> being NaT).
\<close>

datatype cell =
    CInt int
  | CFloat pyfloat
  | CStr string
  | CBool bool
  | CNone
  | CTime "int option"

text \<open>\<open>x < c\<close> and \<open>x > c\<close> on a float and a finite constant; every comparison with NaN is false.\<close>

fun float_lt :: "pyfloat \<Rightarrow> real \<Rightarrow> bool" where
  "float_lt (Fin r) c = (r < c)"
| "float_lt NInf c = True"
| "float_lt PInf c = False"
| "float_lt NaN c = False"

fun float_gt :: "pyfloat \<Rightarrow> real \<Rightarrow> bool" where
  "float_gt (Fin r) c = (c < r)"
| "float_gt PInf c = True"
| "float_gt NInf c = False"
| "float_gt NaN c = False"

section \<open>Library functions the script calls\<close>

text \<open>
  The text functions of Python and pandas are not part of the script; they are parameters
  of the model, so that nothing is assumed about how they treat a given text (Unicode
  included). For the parsers \<open>None\<close> stands for "does not parse": \<open>float\<close> raises
  ValueError, \<open>to_numeric\<close> and \<open>to_datetime\<close> with \<open>errors='coerce'\<close> yield the missing
  marker. \<open>str_lower\<close> and \<open>str_strip\<close> are \<open>str.lower\<close> and \<open>str.strip\<close>;
  \<open>round_ms_to_ns\<close> is the rounding of a float of milliseconds to whole nanoseconds.
\<close>

record library =
  float_of_str :: "string \<Rightarrow> pyfloat option"
  numeric_of_str :: "string \<Rightarrow> pyfloat option"
  str_of_value :: "cell \<Rightarrow> string"
  str_lower :: "string \<Rightarrow> string"
  str_strip :: "string \<Rightarrow> string"
  round_ms_to_ns :: "real \<Rightarrow> int"
  datetime_mixed :: "cell \<Rightarrow> int option"

text \<open>
  Python's \<open>float(val)\<close>; \<open>None\<close> is a raised TypeError or ValueError. An int64 converts
  by rounding to nearest, which is monotone and exact on the thresholds, so the integer
  itself decides every comparison below.
\<close>

fun py_float :: "library \<Rightarrow> cell \<Rightarrow> pyfloat option" where
  "py_float L (CInt i) = Some (Fin (of_int i))"
| "py_float L (CFloat f) = Some f"
| "py_float L (CStr s) = float_of_str L s"
| "py_float L (CBool b) = Some (Fin (if b then 1 else 0))"
| "py_float L CNone = None"
| "py_float L (CTime t) = None"

section \<open>Sentiment buckets\<close>

text \<open>\<open>get_bucket\<close>, lines 151 to 158: the bare \<open>except\<close> turns every failure of \<open>float\<close> into 'Unknown'.\<close>

definition get_bucket :: "library \<Rightarrow> cell \<Rightarrow> string" where
  "get_bucket L val =
     (case py_float L val of
        Some v \<Rightarrow>
          if float_lt v 25 then ''Extreme Fear''
          else if float_lt v 50 then ''Fear''
          else if float_lt v 75 then ''Greed''
          else ''Extreme Greed''
      | None \<Rightarrow> ''Unknown'')"

section \<open>Text\<close>

text \<open>\<open>sub in s\<close> on Python strings.\<close>

fun contains :: "string \<Rightarrow> string \<Rightarrow> bool" where
  "contains [] sub = (sub = [])"
| "contains (c # cs) sub = (prefix sub (c # cs) \<or> contains cs sub)"

text \<open>\<open>s.replace(c, rep)\<close> for a pattern of one character, taken literally.\<close>

definition str_replace_char :: "char \<Rightarrow> string \<Rightarrow> string \<Rightarrow> string" where
  "str_replace_char c rep s = concat (map (\<lambda>x. if x = c then rep else [x]) s)"

text \<open>\<open>c.lower().strip()\<close>, line 67.\<close>

definition normalize_name :: "library \<Rightarrow> string \<Rightarrow> string" where
  "normalize_name L c = str_strip L (str_lower L c)"

section \<open>Tables\<close>

datatype dtype = Int64 | Float64 | Bool | Datetime | Object

text \<open>
  A DataFrame: its columns in order, each with its dtype, and its rows; a row maps column
  names to cells. Column names are taken to be distinct.
\<close>

type_synonym row = "(string \<times> cell) list"

record frame =
  schema :: "(string \<times> dtype) list"
  rows :: "row list"

definition columns :: "frame \<Rightarrow> string list" where
  "columns df = map fst (schema df)"

definition cell_at :: "row \<Rightarrow> string \<Rightarrow> cell" where
  "cell_at r c = (case map_of r c of Some v \<Rightarrow> v | None \<Rightarrow> CNone)"

definition dtype_at :: "frame \<Rightarrow> string \<Rightarrow> dtype" where
  "dtype_at df c = (case map_of (schema df) c of Some d \<Rightarrow> d | None \<Rightarrow> Object)"

definition column :: "frame \<Rightarrow> string \<Rightarrow> cell list" where
  "column df c = map (\<lambda>r. cell_at r c) (rows df)"

text \<open>\<open>df[c] = values\<close>, the values computed row by row: an existing column keeps its place.\<close>

definition assign :: "string \<Rightarrow> dtype \<Rightarrow> (row \<Rightarrow> cell) \<Rightarrow> frame \<Rightarrow> frame" where
  "assign c d f df =
     \<lparr>schema = AList.update c d (schema df),
      rows = map (\<lambda>r. AList.update c (f r) r) (rows df)\<rparr>"

definition frame_empty :: "frame \<Rightarrow> bool" where
  "frame_empty df = (rows df = [] \<or> schema df = [])"

definition is_numeric_dtype :: "dtype \<Rightarrow> bool" where
  "is_numeric_dtype d = (d = Int64 \<or> d = Float64 \<or> d = Bool)"

fun notna :: "cell \<Rightarrow> bool" where
  "notna CNone = False"
| "notna (CFloat NaN) = False"
| "notna (CTime None) = False"
| "notna c = True"

section \<open>The inner join on the date key\<close>

definition key_of :: "row \<Rightarrow> cell" where
  "key_of r = cell_at r ''date_key''"

text \<open>
  \<open>pd.merge(left, right, on='date_key', how='inner')\<close>: one row for every pair of a left
  and a right row with equal keys, in the order of the left rows; a column name other
  than the key that occurs on both sides gets the suffix \<open>_x\<close> or \<open>_y\<close>.
\<close>

definition pd_merge :: "frame \<Rightarrow> frame \<Rightarrow> frame" where
  "pd_merge l r =
     (let common = filter (\<lambda>c. c \<in> set (columns r) \<and> c \<noteq> ''date_key'') (columns l);
          lname = (\<lambda>c. if c \<in> set common then c @ ''_x'' else c);
          rname = (\<lambda>c. if c \<in> set common then c @ ''_y'' else c)
      in \<lparr>schema = map (apfst lname) (schema l)
                     @ map (apfst rname) (filter (\<lambda>p. fst p \<noteq> ''date_key'') (schema r)),
          rows = concat (map (\<lambda>a.
                   map (\<lambda>b. map (apfst lname) a
                             @ map (apfst rname) (filter (\<lambda>p. fst p \<noteq> ''date_key'') b))
                       (filter (\<lambda>b. key_of b = key_of a) (rows r)))
                 (rows l))\<rparr>)"

section \<open>Column mapping\<close>

text \<open>\<open>pd.to_numeric(values, errors='coerce')\<close> on one cell; a timestamp column is read as its int64 view.\<close>

fun to_numeric_coerce :: "library \<Rightarrow> cell \<Rightarrow> cell" where
  "to_numeric_coerce L (CInt i) = CInt i"
| "to_numeric_coerce L (CFloat f) = CFloat f"
| "to_numeric_coerce L (CBool b) = CBool b"
| "to_numeric_coerce L (CStr s) =
     (case numeric_of_str L s of Some f \<Rightarrow> CFloat f | None \<Rightarrow> CFloat NaN)"
| "to_numeric_coerce L CNone = CFloat NaN"
| "to_numeric_coerce L (CTime t) = CInt (case t of Some n \<Rightarrow> n | None \<Rightarrow> - (2 ^ 63))"

text \<open>\<open>.astype(str)\<close> on one cell.\<close>

fun astype_str :: "library \<Rightarrow> cell \<Rightarrow> string" where
  "astype_str L (CStr s) = s"
| "astype_str L c = str_of_value L c"

text \<open>
  Line 134 on one cell of an object column:
  \<open>pd.to_numeric(col.astype(str).str.replace(',', '').str.replace('$', ''), errors='coerce')\<close>.
\<close>

definition clean_pnl :: "library \<Rightarrow> cell \<Rightarrow> cell" where
  "clean_pnl L c =
     to_numeric_coerce L
       (CStr (str_replace_char (CHR ''$'') [] (str_replace_char (CHR '','') [] (astype_str L c))))"

definition is_pnl_name :: "string \<Rightarrow> bool" where
  "is_pnl_name c = (contains c ''closed pnl'' \<or> contains c ''closed_pnl'' \<or> contains c ''pnl'')"

definition is_leverage_name :: "string \<Rightarrow> bool" where
  "is_leverage_name c = contains c ''leverage''"

definition is_value_name :: "string \<Rightarrow> bool" where
  "is_value_name c = (contains c ''value'' \<and> \<not> contains c ''size'')"

text \<open>
  What \<open>print\<close> writes, one value per call: a fixed line (leading blank lines left out),
  or a line formatted from the row count or a range of dates.
\<close>

datatype message =
    Line string
  | MergedRows nat
  | TraderRange cell cell
  | SentimentRange cell cell

text \<open>Lines 131 to 138: the table with \<open>pnl_clean\<close>, and what was printed.\<close>

definition map_pnl :: "library \<Rightarrow> frame \<Rightarrow> frame \<times> message list" where
  "map_pnl L df =
     (case find is_pnl_name (columns df) of
        Some pnl_col \<Rightarrow>
          (if dtype_at df pnl_col = Object
           then assign ''pnl_clean'' Float64 (\<lambda>r. clean_pnl L (cell_at r pnl_col)) df
           else assign ''pnl_clean'' (dtype_at df pnl_col) (\<lambda>r. cell_at r pnl_col) df, [])
      | None \<Rightarrow> (df, [Line ''WARNING: PnL column not found.'']))"

text \<open>Lines 141 to 145.\<close>

definition map_leverage :: "library \<Rightarrow> frame \<Rightarrow> frame" where
  "map_leverage L df =
     (case find is_leverage_name (columns df) of
        Some lev_col \<Rightarrow>
          assign ''lev_clean''
            (case dtype_at df lev_col of Object \<Rightarrow> Float64 | Datetime \<Rightarrow> Int64 | d \<Rightarrow> d)
            (\<lambda>r. to_numeric_coerce L (cell_at r lev_col)) df
      | None \<Rightarrow> assign ''lev_clean'' Object (\<lambda>r. CNone) df)"

text \<open>Lines 148 to 159.\<close>

definition map_sentiment :: "library \<Rightarrow> frame \<Rightarrow> frame" where
  "map_sentiment L df =
     (case find is_value_name (columns df) of
        Some val_col \<Rightarrow>
          assign ''sentiment_bucket'' Object
            (\<lambda>r. CStr (get_bucket L (cell_at r ''sentiment_value'')))
            (assign ''sentiment_value'' (dtype_at df val_col) (\<lambda>r. cell_at r val_col) df)
      | None \<Rightarrow> df)"

section \<open>Aggregates\<close>

text \<open>The number a numeric cell stands for; \<open>None\<close> for a missing or non-numeric cell.\<close>

fun num_value :: "cell \<Rightarrow> pyfloat option" where
  "num_value (CInt i) = Some (Fin (of_int i))"
| "num_value (CFloat NaN) = None"
| "num_value (CFloat f) = Some f"
| "num_value (CBool b) = Some (Fin (if b then 1 else 0))"
| "num_value c = None"

fun float_add :: "pyfloat \<Rightarrow> pyfloat \<Rightarrow> pyfloat" where
  "float_add (Fin a) (Fin b) = Fin (a + b)"
| "float_add NaN y = NaN"
| "float_add x NaN = NaN"
| "float_add PInf NInf = NaN"
| "float_add NInf PInf = NaN"
| "float_add PInf y = PInf"
| "float_add x PInf = PInf"
| "float_add NInf y = NInf"
| "float_add x NInf = NInf"

fun float_div_nat :: "pyfloat \<Rightarrow> nat \<Rightarrow> pyfloat" where
  "float_div_nat (Fin a) n = Fin (a / real n)"
| "float_div_nat x n = x"

text \<open>\<open>Series.mean()\<close> with its default \<open>skipna=True\<close>: NaN when nothing is left.\<close>

definition mean_skipna :: "cell list \<Rightarrow> pyfloat" where
  "mean_skipna cs =
     (let vs = List.map_filter num_value cs
      in if vs = [] then NaN else float_div_nat (foldl float_add (Fin 0) vs) (length vs))"

definition bucket_order :: "string list" where
  "bucket_order = [''Extreme Fear'', ''Fear'', ''Greed'', ''Extreme Greed'']"

text \<open>
  \<open>df.groupby('sentiment_bucket')[c].mean()\<close> reindexed to the buckets of \<open>order\<close> that occur
  (lines 170 to 172 and 219 to 221).
\<close>

definition group_cells :: "frame \<Rightarrow> string \<Rightarrow> string \<Rightarrow> cell list" where
  "group_cells df b c =
     map (\<lambda>r. cell_at r c) (filter (\<lambda>r. cell_at r ''sentiment_bucket'' = CStr b) (rows df))"

definition mean_by_bucket :: "frame \<Rightarrow> string \<Rightarrow> (string \<times> pyfloat) list" where
  "mean_by_bucket df c =
     map (\<lambda>b. (b, mean_skipna (group_cells df b c)))
         (filter (\<lambda>b. CStr b \<in> set (column df ''sentiment_bucket'')) bucket_order)"

section \<open>The three charts\<close>

text \<open>The exceptions that end a run: those the script's own lines raise, and those of the
  two library calls it makes without \<open>errors='coerce'\<close> or a guard (\<open>read_csv\<close> and
  \<open>to_datetime(unit='ms')\<close>).\<close>

datatype error =
    KeyError string
  | TypeError
  | OutOfBoundsDatetime
  | EmptyDataError
  | ParserError

text \<open>A chart written to disk: its file and the data it draws.\<close>

datatype chart =
    BarChart string "(string \<times> pyfloat) list"
  | ScatterChart string "(cell \<times> cell) list"

text \<open>\<open>value > 0\<close> on one cell, and whether pandas evaluates it at all (else TypeError).\<close>

fun gt_zero :: "cell \<Rightarrow> bool" where
  "gt_zero (CInt i) = (0 < i)"
| "gt_zero (CFloat f) = float_gt f 0"
| "gt_zero (CBool b) = b"
| "gt_zero c = False"

fun comparable :: "cell \<Rightarrow> bool" where
  "comparable (CInt i) = True"
| "comparable (CFloat f) = True"
| "comparable (CBool b) = True"
| "comparable c = False"

text \<open>Plot 1, lines 169 to 196. There is no \<open>else\<close>: when the guard fails nothing is printed.\<close>

definition plot_pnl :: "frame \<Rightarrow> message list \<times> chart list" where
  "plot_pnl df =
     (if ''pnl_clean'' \<in> set (columns df) \<and> ''sentiment_bucket'' \<in> set (columns df)
      then ([Line ''-> Saved professional images/pnl_by_sentiment.png''],
            [BarChart ''images/pnl_by_sentiment.png'' (mean_by_bucket df ''pnl_clean'')])
      else ([], []))"

text \<open>
  Plot 2, lines 199 to 214. The guard looks at \<open>lev_clean\<close> only; the body reads
  \<open>merged_df['sentiment_value']\<close>, a KeyError when that column was never derived.
\<close>

definition plot_leverage :: "frame \<Rightarrow> error + message list \<times> chart list" where
  "plot_leverage df =
     (if ''lev_clean'' \<in> set (columns df) \<and> list_ex notna (column df ''lev_clean'')
      then (if ''sentiment_value'' \<in> set (columns df)
            then Inr ([Line ''-> Saved professional images/leverage_vs_sentiment.png''],
                      [ScatterChart ''images/leverage_vs_sentiment.png''
                         (zip (column df ''sentiment_value'') (column df ''lev_clean''))])
            else Inl (KeyError ''sentiment_value''))
      else Inr ([Line ''-> Leverage column missing. Skipping leverage plot.''], []))"

text \<open>Plot 3, lines 217 to 239. Again no \<open>else\<close>.\<close>

definition plot_win_rate :: "frame \<Rightarrow> error + frame \<times> message list \<times> chart list" where
  "plot_win_rate df =
     (if ''pnl_clean'' \<in> set (columns df) \<and> ''sentiment_bucket'' \<in> set (columns df)
      then (if list_all comparable (column df ''pnl_clean'')
            then (let df' = assign ''is_win'' Bool (\<lambda>r. CBool (gt_zero (cell_at r ''pnl_clean''))) df
                  in Inr (df',
                          [Line ''-> Saved professional images/win_rate_by_sentiment.png''],
                          [BarChart ''images/win_rate_by_sentiment.png'' (mean_by_bucket df' ''is_win'')]))
            else Inl TypeError)
      else Inr (df, [], []))"

section \<open>The analyzer\<close>

text \<open>
  What one call of \<open>analyze_and_visualize\<close> leaves behind: the lines printed, the charts
  saved, whether \<open>images/\<close> was created, the merged table as it stands at the end (if one
  was built) and the exception that ended the call (if any).
\<close>

record outcome =
  printed :: "message list"
  charts :: "chart list"
  made_dir :: bool
  merged :: "frame option"
  raised :: "error option"

definition analyze_and_visualize :: "library \<Rightarrow> bool \<Rightarrow> frame \<Rightarrow> frame \<Rightarrow> outcome" where
  "analyze_and_visualize L images_exists trader_df sentiment_df =
     (let out0 = [Line ''--- 2. MERGING & MAPPING ---''] in
      if ''date_key'' \<notin> set (columns trader_df) \<or> ''date_key'' \<notin> set (columns sentiment_df)
      then \<lparr>printed = out0, charts = [], made_dir = False, merged = None,
            raised = Some (KeyError ''date_key'')\<rparr>
      else
        let merged_df = pd_merge trader_df sentiment_df;
            out1 = out0 @ [MergedRows (length (rows merged_df))]
        in if frame_empty merged_df
           then \<lparr>printed = out1 @ [Line ''ERROR: Merged DataFrame is still empty.''],
                 charts = [], made_dir = False, merged = Some merged_df, raised = None\<rparr>
           else
             let (df1, warn) = map_pnl L merged_df;
                 df3 = map_sentiment L (map_leverage L df1);
                 out2 = out1 @ warn @ [Line ''--- 3. GENERATING PROFESSIONAL PLOTS ---''];
                 (out_a, charts_a) = plot_pnl df3
             in case plot_leverage df3 of
                  Inl e \<Rightarrow>
                    \<lparr>printed = out2 @ out_a, charts = charts_a, made_dir = (\<not> images_exists),
                     merged = Some df3, raised = Some e\<rparr>
                | Inr (out_b, charts_b) \<Rightarrow>
                    (case plot_win_rate df3 of
                       Inl e \<Rightarrow>
                         \<lparr>printed = out2 @ out_a @ out_b, charts = charts_a @ charts_b,
                          made_dir = (\<not> images_exists), merged = Some df3, raised = Some e\<rparr>
                     | Inr (df4, out_c, charts_c) \<Rightarrow>
                         \<lparr>printed = out2 @ out_a @ out_b @ out_c
                                     @ [Line ''SUCCESS: Analysis Finished.''],
                          charts = charts_a @ charts_b @ charts_c,
                          made_dir = (\<not> images_exists), merged = Some df4, raised = None\<rparr>))"

section \<open>The loader\<close>

text \<open>
  What the script reads from its surroundings: for each path that exists what \<open>read_csv\<close>
  does with it, the table it yields or the exception it raises (\<open>None\<close> for a path that
  does not exist), and whether \<open>images/\<close> exists.
\<close>

record world =
  files :: "string \<Rightarrow> (error + frame) option"
  images_dir :: bool

definition TRADER_DATA_PATH :: string where
  "TRADER_DATA_PATH = ''data/historical_data.csv''"

definition SENTIMENT_DATA_PATH :: string where
  "SENTIMENT_DATA_PATH = ''data/fear_greed_index.csv''"

text \<open>
  Lines 49 to 52 and 58 to 61: \<open>read_csv\<close> of the configured path if it exists, else of
  the bare file name in the working directory if that exists.
\<close>

definition locate :: "world \<Rightarrow> string \<Rightarrow> string \<Rightarrow> (error + frame) option" where
  "locate w path fallback =
     (case files w path of Some f \<Rightarrow> Some f | None \<Rightarrow> files w fallback)"

definition rename_columns :: "(string \<Rightarrow> string) \<Rightarrow> frame \<Rightarrow> frame" where
  "rename_columns f df =
     \<lparr>schema = map (apfst f) (schema df), rows = map (map (apfst f)) (rows df)\<rparr>"

text \<open>\<open>.dt.normalize()\<close>: the time of day is dropped (nanoseconds since the epoch).\<close>

definition day_ns :: int where
  "day_ns = 86400000000000"

fun time_of :: "cell \<Rightarrow> int option" where
  "time_of (CTime t) = t"
| "time_of c = None"

definition normalize_time :: "cell \<Rightarrow> cell" where
  "normalize_time c =
     (case time_of c of Some t \<Rightarrow> CTime (Some (t - t mod day_ns)) | None \<Rightarrow> CTime None)"

definition dropna_date_key :: "frame \<Rightarrow> frame" where
  "dropna_date_key df = df\<lparr>rows := filter (\<lambda>r. notna (cell_at r ''date_key'')) (rows df)\<rparr>"

text \<open>\<open>.min()\<close> and \<open>.max()\<close> of a timestamp column: NaT when the column is empty.\<close>

definition time_min :: "cell list \<Rightarrow> cell" where
  "time_min cs =
     (case List.map_filter time_of cs of [] \<Rightarrow> CTime None | t # ts \<Rightarrow> CTime (Some (fold min ts t)))"

definition time_max :: "cell list \<Rightarrow> cell" where
  "time_max cs =
     (case List.map_filter time_of cs of [] \<Rightarrow> CTime None | t # ts \<Rightarrow> CTime (Some (fold max ts t)))"

text \<open>\<open>a < b\<close> on timestamps: false when either is NaT.\<close>

definition time_lt :: "cell \<Rightarrow> cell \<Rightarrow> bool" where
  "time_lt a b = (case (time_of a, time_of b) of (Some x, Some y) \<Rightarrow> x < y | _ \<Rightarrow> False)"

text \<open>
  \<open>pd.to_datetime(values, unit='ms')\<close> on one cell of a numeric column, in nanoseconds
  since the epoch. Line 75 passes no \<open>errors='coerce'\<close>: a value outside the range of a
  64-bit nanosecond timestamp raises OutOfBoundsDatetime, a boolean raises TypeError. NaN
  and the least int64 are read as NaT.
\<close>

definition in_ns_range :: "int \<Rightarrow> bool" where
  "in_ns_range n = (- (2 ^ 63) < n \<and> n < 2 ^ 63)"

fun to_datetime_ms :: "library \<Rightarrow> cell \<Rightarrow> error + int option" where
  "to_datetime_ms L (CInt i) =
     (if i = - (2 ^ 63) then Inr None
      else if in_ns_range (i * 1000000) then Inr (Some (i * 1000000))
      else Inl OutOfBoundsDatetime)"
| "to_datetime_ms L (CFloat (Fin r)) =
     (if in_ns_range (round_ms_to_ns L r) then Inr (Some (round_ms_to_ns L r))
      else Inl OutOfBoundsDatetime)"
| "to_datetime_ms L (CFloat NaN) = Inr None"
| "to_datetime_ms L (CFloat f) = Inl OutOfBoundsDatetime"
| "to_datetime_ms L c = Inl TypeError"

text \<open>The exception the conversion of a whole column raises, if any: that of its first failing cell.\<close>

definition to_datetime_column :: "library \<Rightarrow> cell list \<Rightarrow> error option" where
  "to_datetime_column L cs =
     (case List.map_filter (\<lambda>c. case to_datetime_ms L c of Inl e \<Rightarrow> Some e | Inr t \<Rightarrow> None) cs of
        [] \<Rightarrow> None
      | e # es \<Rightarrow> Some e)"

definition datetime_cell :: "library \<Rightarrow> cell \<Rightarrow> cell" where
  "datetime_cell L c = (case to_datetime_ms L c of Inr t \<Rightarrow> CTime t | Inl e \<Rightarrow> CTime None)"

text \<open>
  Lines 73 to 81: \<open>None\<close> when no time column is recognized; else the line printed and
  either the exception line 75 raises or the trader table with its \<open>datetime\<close> column.
\<close>

definition fix_trader_dates :: "library \<Rightarrow> frame \<Rightarrow> (message \<times> (error + frame)) option" where
  "fix_trader_dates L trader_df =
     (if ''timestamp'' \<in> set (columns trader_df)
         \<and> is_numeric_dtype (dtype_at trader_df ''timestamp'')
      then Some (Line ''-> Using numeric 'timestamp' column for Trader Data...'',
                 case to_datetime_column L (column trader_df ''timestamp'') of
                   Some e \<Rightarrow> Inl e
                 | None \<Rightarrow>
                     Inr (assign ''datetime'' Datetime
                            (\<lambda>r. datetime_cell L (cell_at r ''timestamp'')) trader_df))
      else if ''timestamp ist'' \<in> set (columns trader_df)
      then Some (Line ''-> Using string 'timestamp ist' column for Trader Data...'',
                 Inr (assign ''datetime'' Datetime
                        (\<lambda>r. CTime (datetime_mixed L (cell_at r ''timestamp ist''))) trader_df))
      else None)"

text \<open>Lines 84 to 92.\<close>

definition fix_sentiment_dates :: "library \<Rightarrow> frame \<Rightarrow> (frame \<times> message) option" where
  "fix_sentiment_dates L sentiment_df =
     (if ''date'' \<in> set (columns sentiment_df)
      then Some (assign ''date_key_raw'' Datetime
                   (\<lambda>r. CTime (datetime_mixed L (cell_at r ''date''))) sentiment_df,
                 Line ''-> Using 'date' column for Sentiment Data...'')
      else if ''timestamp'' \<in> set (columns sentiment_df)
      then Some (assign ''date_key_raw'' Datetime
                   (\<lambda>r. CTime (datetime_mixed L (cell_at r ''timestamp''))) sentiment_df,
                 Line ''-> Using 'timestamp' column for Sentiment Data...'')
      else None)"

text \<open>Lines 95 to 112: the date keys, the rows without one dropped, the diagnostics.\<close>

definition finish_load :: "frame \<Rightarrow> frame \<Rightarrow> message list \<times> frame \<times> frame" where
  "finish_load trader_df sentiment_df =
     (let t = dropna_date_key
                (assign ''date_key'' Datetime (\<lambda>r. normalize_time (cell_at r ''datetime'')) trader_df);
          s = dropna_date_key
                (assign ''date_key'' Datetime (\<lambda>r. normalize_time (cell_at r ''date_key_raw''))
                   sentiment_df);
          t_min = time_min (column t ''date_key''); t_max = time_max (column t ''date_key'');
          s_min = time_min (column s ''date_key''); s_max = time_max (column s ''date_key'')
      in ([TraderRange t_min t_max, SentimentRange s_min s_max]
          @ (if time_lt t_max s_min \<or> time_lt s_max t_min
             then [Line ''CRITICAL WARNING: The date ranges do NOT overlap.''] else []),
          t, s))"

text \<open>
  \<open>load_and_clean_data\<close>: what it prints, and how it ends: with an exception, or by
  returning a pair (\<open>None\<close> for \<open>(None, None)\<close>). The trader file is read before the
  sentiment file is looked for, and the trader dates are converted before the sentiment
  table is searched for its date column.
\<close>

definition load_and_clean_data ::
  "library \<Rightarrow> world \<Rightarrow> message list \<times> (error + (frame \<times> frame) option)" where
  "load_and_clean_data L w =
     (let out0 = [Line ''--- 1. LOADING & DIAGNOSING DATA ---''] in
      case locate w TRADER_DATA_PATH ''historical_data.csv'' of
        None \<Rightarrow> (out0 @ [Line ''CRITICAL ERROR: Could not find trader data.''], Inr None)
      | Some (Inl e) \<Rightarrow> (out0, Inl e)
      | Some (Inr trader_raw) \<Rightarrow>
          (case locate w SENTIMENT_DATA_PATH ''fear_greed_index.csv'' of
             None \<Rightarrow> (out0 @ [Line ''CRITICAL ERROR: Could not find sentiment data.''], Inr None)
           | Some (Inl e) \<Rightarrow> (out0, Inl e)
           | Some (Inr sentiment_raw) \<Rightarrow>
               (case fix_trader_dates L (rename_columns (normalize_name L) trader_raw) of
                  None \<Rightarrow>
                    (out0 @ [Line ''ERROR: Could not find a recognizable time column in Trader Data.''],
                     Inr None)
                | Some (m1, Inl e) \<Rightarrow> (out0 @ [m1], Inl e)
                | Some (m1, Inr trader_df) \<Rightarrow>
                    (case fix_sentiment_dates L (rename_columns (normalize_name L) sentiment_raw) of
                       None \<Rightarrow>
                         (out0 @ [m1, Line ''ERROR: Could not find a recognizable date column in Sentiment Data.''],
                          Inr None)
                     | Some (sentiment_df, m2) \<Rightarrow>
                         (let (diag, t, s) = finish_load trader_df sentiment_df
                          in (out0 @ [m1, m2] @ diag, Inr (Some (t, s))))))))"

section \<open>The entry point\<close>

text \<open>
  Lines 243 to 246: the analysis runs only when the loader returned two tables; an
  exception of the loader ends the run.
\<close>

definition main :: "library \<Rightarrow> world \<Rightarrow> outcome" where
  "main L w =
     (case load_and_clean_data L w of
        (out, Inl e) \<Rightarrow>
          \<lparr>printed = out, charts = [], made_dir = False, merged = None, raised = Some e\<rparr>
      | (out, Inr None) \<Rightarrow>
          \<lparr>printed = out, charts = [], made_dir = False, merged = None, raised = None\<rparr>
      | (out, Inr (Some (t_df, s_df))) \<Rightarrow>
          (let r = analyze_and_visualize L (images_dir w) t_df s_df
           in r\<lparr>printed := out @ printed r\<rparr>))"

section \<open>Notions of the specification\<close>

text \<open>The number a numeric sentiment score stands for: an integer or a finite float.\<close>

fun numeric_score :: "cell \<Rightarrow> real option" where
  "numeric_score (CInt i) = Some (of_int i)"
| "numeric_score (CFloat (Fin x)) = Some x"
| "numeric_score c = None"

text \<open>
  The failures of the loader the specification names: an input for which neither the
  configured path nor the fallback exists, and a table (with its column names normalized)
  in which the loader finds no date or time column.
\<close>

definition input_missing :: "world \<Rightarrow> string \<Rightarrow> string \<Rightarrow> bool" where
  "input_missing w path fallback = (files w path = None \<and> files w fallback = None)"

definition trader_time_column :: "frame \<Rightarrow> bool" where
  "trader_time_column df =
     ((''timestamp'' \<in> set (columns df) \<and> is_numeric_dtype (dtype_at df ''timestamp''))
      \<or> ''timestamp ist'' \<in> set (columns df))"

definition sentiment_date_column :: "frame \<Rightarrow> bool" where
  "sentiment_date_column df = (''date'' \<in> set (columns df) \<or> ''timestamp'' \<in> set (columns df))"

definition load_failure :: "library \<Rightarrow> world \<Rightarrow> bool" where
  "load_failure L w =
     (input_missing w TRADER_DATA_PATH ''historical_data.csv''
      \<or> input_missing w SENTIMENT_DATA_PATH ''fear_greed_index.csv''
      \<or> (case locate w TRADER_DATA_PATH ''historical_data.csv'' of
            Some (Inr t) \<Rightarrow> \<not> trader_time_column (rename_columns (normalize_name L) t)
          | _ \<Rightarrow> False)
      \<or> (case locate w SENTIMENT_DATA_PATH ''fear_greed_index.csv'' of
            Some (Inr s) \<Rightarrow> \<not> sentiment_date_column (rename_columns (normalize_name L) s)
          | _ \<Rightarrow> False))"

text \<open>
  Whether the trader timestamps are converted without an exception: always on the text
  column, and on the numeric column when every cell converts.
\<close>

definition timestamps_convert :: "library \<Rightarrow> frame \<Rightarrow> bool" where
  "timestamps_convert L df =
     (if ''timestamp'' \<in> set (columns df) \<and> is_numeric_dtype (dtype_at df ''timestamp'')
      then to_datetime_column L (column df ''timestamp'') = None
      else True)"

text \<open>
  Whether what the loader runs before it meets its first failure raises nothing: a trader
  file that exists is read; then, if the sentiment file exists too, it is read and, if
  the trader table has a time column, its timestamps are converted.
\<close>

definition failure_reached :: "library \<Rightarrow> world \<Rightarrow> bool" where
  "failure_reached L w =
     (case locate w TRADER_DATA_PATH ''historical_data.csv'' of
        None \<Rightarrow> True
      | Some (Inl e) \<Rightarrow> False
      | Some (Inr t) \<Rightarrow>
          (case locate w SENTIMENT_DATA_PATH ''fear_greed_index.csv'' of
             None \<Rightarrow> True
           | Some (Inl e) \<Rightarrow> False
           | Some (Inr s) \<Rightarrow> timestamps_convert L (rename_columns (normalize_name L) t)))"

text \<open>The four lines with which the loader reports a failure.\<close>

definition error_lines :: "message list" where
  "error_lines =
     [Line ''CRITICAL ERROR: Could not find trader data.'',
      Line ''CRITICAL ERROR: Could not find sentiment data.'',
      Line ''ERROR: Could not find a recognizable time column in Trader Data.'',
      Line ''ERROR: Could not find a recognizable date column in Sentiment Data.'']"

text \<open>
  The rows of a sentiment bucket, whatever their profit and loss, and those among them
  with a profit.
\<close>

definition bucket_rows :: "frame \<Rightarrow> string \<Rightarrow> row list" where
  "bucket_rows df b = filter (\<lambda>r. cell_at r ''sentiment_bucket'' = CStr b) (rows df)"

definition bucket_wins :: "frame \<Rightarrow> string \<Rightarrow> row list" where
  "bucket_wins df b = filter (\<lambda>r. gt_zero (cell_at r ''pnl_clean'')) (bucket_rows df b)"

section \<open>Sample inputs\<close>

text \<open>
  A stand-in for the library's functions, used in the examples only: plain signed decimal
  literals as numbers (the real parsers accept more), two dates, and \<open>lower\<close> and \<open>strip\<close>
  as they are on ASCII text.
\<close>

definition lower_char :: "char \<Rightarrow> char" where
  "lower_char c =
     (case map_of (zip ''ABCDEFGHIJKLMNOPQRSTUVWXYZ'' ''abcdefghijklmnopqrstuvwxyz'') c of
        Some d \<Rightarrow> d
      | None \<Rightarrow> c)"

definition is_space :: "char \<Rightarrow> bool" where
  "is_space c = (c \<in> set [CHR '' '', CHR 0x09, CHR 0x0A, CHR 0x0B, CHR 0x0C, CHR 0x0D,
                           CHR 0x1C, CHR 0x1D, CHR 0x1E, CHR 0x1F])"

definition strip :: "string \<Rightarrow> string" where
  "strip s = rev (dropWhile is_space (rev (dropWhile is_space s)))"

definition digit_of :: "char \<Rightarrow> nat option" where
  "digit_of c = map_of (zip ''0123456789'' [0, 1, 2, 3, 4, 5, 6, 7, 8, 9]) c"

definition unsigned_decimal :: "string \<Rightarrow> real option" where
  "unsigned_decimal s =
     (let ip = takeWhile (\<lambda>c. c \<noteq> CHR ''.'') s;
          fp = drop 1 (dropWhile (\<lambda>c. c \<noteq> CHR ''.'') s);
          ds = map digit_of (ip @ fp)
      in if ip @ fp = [] \<or> None \<in> set ds then None
         else Some (real (foldl (\<lambda>n d. 10 * n + d) 0 (List.map_filter id ds)) / 10 ^ length fp))"

definition decimal_literal :: "string \<Rightarrow> pyfloat option" where
  "decimal_literal s =
     (case s of
        [] \<Rightarrow> None
      | c # t \<Rightarrow>
          if c = CHR ''-'' then map_option (\<lambda>x. Fin (- x)) (unsigned_decimal t)
          else if c = CHR ''+'' then map_option Fin (unsigned_decimal t)
          else map_option Fin (unsigned_decimal s))"

definition day1 :: int where
  "day1 = 1714521600000000000"

definition day2 :: int where
  "day2 = 1714608000000000000"

definition sample_library :: library where
  "sample_library =
     \<lparr>float_of_str = decimal_literal,
      numeric_of_str = decimal_literal,
      str_of_value = (\<lambda>c. ''nan''),
      str_lower = map lower_char,
      str_strip = strip,
      round_ms_to_ns = (\<lambda>r. \<lfloor>r * 1000000\<rfloor>),
      datetime_mixed =
        (\<lambda>c. case c of
                CStr s \<Rightarrow> map_of [(''01-05-2024'', day1), (''02-05-2024'', day2)] s
              | _ \<Rightarrow> None)\<rparr>"

text \<open>Tables for the single steps.\<close>

definition score_frame :: frame where
  "score_frame = \<lparr>schema = [(''value'', Int64)], rows = [[(''value'', CInt 25)]]\<rparr>"

definition pnl_frame :: frame where
  "pnl_frame =
     \<lparr>schema = [(''closed pnl'', Object)], rows = [[(''closed pnl'', CStr ''$1,234.50'')]]\<rparr>"

text \<open>Cleaned tables: three trades of one day, and sentiment tables to join them with.\<close>

definition dup_trader :: frame where
  "dup_trader =
     \<lparr>schema = [(''closed pnl'', Float64), (''date_key'', Datetime)],
      rows = [[(''closed pnl'', CFloat (Fin 1)), (''date_key'', CTime (Some day1))],
              [(''closed pnl'', CFloat (Fin 2)), (''date_key'', CTime (Some day1))],
              [(''closed pnl'', CFloat (Fin 3)), (''date_key'', CTime (Some day1))]]\<rparr>"

definition dup_sentiment :: frame where
  "dup_sentiment =
     \<lparr>schema = [(''value'', Int64), (''date_key'', Datetime)],
      rows = [[(''value'', CInt 20), (''date_key'', CTime (Some day1))],
              [(''value'', CInt 60), (''date_key'', CTime (Some day1))]]\<rparr>"

definition one_sentiment :: frame where
  "one_sentiment =
     \<lparr>schema = [(''value'', Int64), (''date_key'', Datetime)],
      rows = [[(''value'', CInt 20), (''date_key'', CTime (Some day1))],
              [(''value'', CInt 60), (''date_key'', CTime (Some day2))]]\<rparr>"

definition late_sentiment :: frame where
  "late_sentiment =
     \<lparr>schema = [(''value'', Int64), (''date_key'', Datetime)],
      rows = [[(''value'', CInt 60), (''date_key'', CTime (Some day2))]]\<rparr>"

text \<open>
  Files as \<open>read_csv\<close> yields them: a trader table with a timestamp in range and one
  with a timestamp of 10^17 ms, far beyond the year 2262, and a sentiment table without
  a date column. Then three surroundings of the script; in the last the trader file
  exists but is empty, so that \<open>read_csv\<close> raises, and there is no sentiment file.
\<close>

definition raw_trader :: frame where
  "raw_trader =
     \<lparr>schema = [(''Timestamp'', Int64), (''Closed PnL'', Float64)],
      rows = [[(''Timestamp'', CInt 1714560000000), (''Closed PnL'', CFloat (Fin 5))]]\<rparr>"

definition overflow_trader :: frame where
  "overflow_trader =
     \<lparr>schema = [(''Timestamp'', Int64), (''Closed PnL'', Float64)],
      rows = [[(''Timestamp'', CInt 100000000000000000), (''Closed PnL'', CFloat (Fin 5))]]\<rparr>"

definition undated_sentiment :: frame where
  "undated_sentiment =
     \<lparr>schema = [(''value'', Int64), (''classification'', Object)],
      rows = [[(''value'', CInt 30), (''classification'', CStr ''Fear'')]]\<rparr>"

definition undated_world :: world where
  "undated_world =
     \<lparr>files = [''data/historical_data.csv'' \<mapsto> Inr raw_trader,
               ''data/fear_greed_index.csv'' \<mapsto> Inr undated_sentiment],
      images_dir = False\<rparr>"

definition overflow_world :: world where
  "overflow_world =
     \<lparr>files = [''data/historical_data.csv'' \<mapsto> Inr overflow_trader,
               ''data/fear_greed_index.csv'' \<mapsto> Inr undated_sentiment],
      images_dir = False\<rparr>"

definition unreadable_world :: world where
  "unreadable_world =
     \<lparr>files = [''data/historical_data.csv'' \<mapsto> Inl EmptyDataError], images_dir = False\<rparr>"

text \<open>A table after column mapping, one of its rows without a profit or loss.\<close>

definition win_frame :: frame where
  "win_frame =
     \<lparr>schema = [(''pnl_clean'', Float64), (''sentiment_bucket'', Object)],
      rows = [[(''pnl_clean'', CFloat (Fin 5)), (''sentiment_bucket'', CStr ''Fear'')],
              [(''pnl_clean'', CFloat NaN), (''sentiment_bucket'', CStr ''Fear'')],
              [(''pnl_clean'', CFloat (Fin 0)), (''sentiment_bucket'', CStr ''Greed'')]]\<rparr>"

text \<open>Cleaned tables in which the sentiment table has no score column.\<close>

definition no_value_sentiment :: frame where
  "no_value_sentiment =
     \<lparr>schema = [(''classification'', Object), (''date_key'', Datetime)],
      rows = [[(''classification'', CStr ''Fear''), (''date_key'', CTime (Some day1))]]\<rparr>"

definition lev_trader :: frame where
  "lev_trader =
     \<lparr>schema = [(''closed pnl'', Float64), (''leverage'', Int64), (''date_key'', Datetime)],
      rows = [[(''closed pnl'', CFloat (Fin 1)), (''leverage'', CInt 10),
               (''date_key'', CTime (Some day1))]]\<rparr>"

definition plain_trader :: frame where
  "plain_trader =
     \<lparr>schema = [(''closed pnl'', Float64), (''date_key'', Datetime)],
      rows = [[(''closed pnl'', CFloat (Fin 1)), (''date_key'', CTime (Some day1))]]\<rparr>"

section \<open>Basic facts about tables\<close>

lemma cell_at_update:
  "cell_at (AList.update k v r) k' = (if k' = k then v else cell_at r k')"
  by (simp add: cell_at_def update_conv')

lemma rows_assign: "rows (assign c d f df) = map (\<lambda>r. AList.update c (f r) r) (rows df)"
  by (simp add: assign_def)

lemma rows_assign_nth:
  "i < length (rows df) \<Longrightarrow>
   rows (assign c d f df) ! i = AList.update c (f (rows df ! i)) (rows df ! i)"
  by (simp add: assign_def)

lemma length_rows_assign: "length (rows (assign c d f df)) = length (rows df)"
  by (simp add: assign_def)

lemma columns_assign: "set (columns (assign c d f df)) = insert c (set (columns df))"
  by (simp add: assign_def columns_def dom_update)

lemma decimal_example: "decimal_literal ''1234.50'' = Some (Fin 1234.5)"
  by (simp add: decimal_literal_def unsigned_decimal_def digit_of_def List.map_filter_def)

section \<open>Sentiment buckets\<close>

lemma get_bucket_numeric:
  "numeric_score c = Some x \<Longrightarrow>
   get_bucket L c = (if x < 25 then ''Extreme Fear'' else if x < 50 then ''Fear''
                     else if x < 75 then ''Greed'' else ''Extreme Greed'')"
  by (cases c rule: numeric_score.cases) (auto simp: get_bucket_def)

lemma find_value_score_frame: "find is_value_name (columns score_frame) = Some ''value''"
  by (simp add: score_frame_def columns_def is_value_name_def)

text \<open>
  C1. In every row of the table whose sentiment score (the cell of the detected value
  column) is a number \<open>x\<close>, the derived \<open>sentiment_bucket\<close> is 'Extreme Fear' for
  \<open>x < 25\<close>, 'Fear' for \<open>25 \<le> x < 50\<close>, 'Greed' for \<open>50 \<le> x < 75\<close> and 'Extreme Greed'
  for \<open>75 \<le> x\<close>, hence one of the four named buckets; the boundary scores 25, 50 and 75
  fall into the upper bucket.
\<close>

theorem sentiment_bucket_thresholds:
  assumes "find is_value_name (columns df) = Some val_col"
    and "i < length (rows df)"
    and "numeric_score (cell_at (rows df ! i) val_col) = Some x"
  shows "cell_at (rows (map_sentiment L df) ! i) ''sentiment_bucket'' =
           CStr (if x < 25 then ''Extreme Fear'' else if x < 50 then ''Fear''
                 else if x < 75 then ''Greed'' else ''Extreme Greed'')
         \<and> cell_at (rows (map_sentiment L df) ! i) ''sentiment_bucket'' \<in> CStr ` set bucket_order
         \<and> get_bucket L (CInt 25) = ''Fear'' \<and> get_bucket L (CInt 50) = ''Greed''
         \<and> get_bucket L (CInt 75) = ''Extreme Greed''"
proof -
  let ?df1 = "assign ''sentiment_value'' (dtype_at df val_col) (\<lambda>r. cell_at r val_col) df"
  have len: "i < length (rows ?df1)"
    using assms(2) by (simp add: length_rows_assign)
  have "cell_at (rows ?df1 ! i) ''sentiment_value'' = cell_at (rows df ! i) val_col"
    using assms(2) by (simp add: rows_assign_nth cell_at_update)
  then have "cell_at (rows (map_sentiment L df) ! i) ''sentiment_bucket''
             = CStr (get_bucket L (cell_at (rows df ! i) val_col))"
    using assms(1) len by (simp add: map_sentiment_def rows_assign_nth cell_at_update)
  then show ?thesis
    using get_bucket_numeric [OF assms(3), of L] by (simp add: get_bucket_def bucket_order_def)
qed

theorem sentiment_bucket_thresholds_witness:
  "cell_at (rows (map_sentiment sample_library score_frame) ! 0) ''sentiment_bucket'' = CStr ''Fear''"
proof -
  have a: "0 < length (rows score_frame)"
    by (simp add: score_frame_def)
  have b: "numeric_score (cell_at (rows score_frame ! 0) ''value'') = Some 25"
    by (simp add: score_frame_def cell_at_def)
  show ?thesis
    using sentiment_bucket_thresholds [OF find_value_score_frame a b, of sample_library] by simp
qed

text \<open>
  C2, at the missing marker. An empty field of the score column is read as NaN;
  \<open>float(NaN)\<close> does not raise and every comparison with NaN is false, so the row lands
  in the last branch: 'Extreme Greed', not 'Unknown'.
\<close>

theorem get_bucket_missing_score:
  "get_bucket L (CFloat NaN) = ''Extreme Greed'' \<and> get_bucket L (CFloat NaN) \<noteq> ''Unknown''"
  by (simp add: get_bucket_def)

section \<open>Cleaning of profit and loss\<close>

lemma remove_two_chars:
  "str_replace_char (CHR ''$'') [] (str_replace_char (CHR '','') [] s)
   = filter (\<lambda>c. c \<noteq> CHR '','' \<and> c \<noteq> CHR ''$'') s"
  by (induction s) (auto simp: str_replace_char_def)

lemma find_pnl_frame: "find is_pnl_name (columns pnl_frame) = Some ''closed pnl''"
  by (simp add: pnl_frame_def columns_def is_pnl_name_def)

text \<open>
  C3. For a text entry \<open>s\<close> of the profit/loss column (an object column), \<open>pnl_clean\<close> is
  what numeric coercion makes of \<open>s\<close> with every comma and dollar sign removed: the
  number it parses to, or the missing marker NaN when it does not parse; no error is
  raised. So "$1,234.50" cleans to 1234.50, given that the parser reads "1234.50" as
  that number.
\<close>

theorem pnl_text_cleaning:
  assumes "find is_pnl_name (columns df) = Some pnl_col"
    and "dtype_at df pnl_col = Object"
    and "i < length (rows df)"
    and "cell_at (rows df ! i) pnl_col = CStr s"
  shows "cell_at (rows (fst (map_pnl L df)) ! i) ''pnl_clean'' =
           (case numeric_of_str L (filter (\<lambda>c. c \<noteq> CHR '','' \<and> c \<noteq> CHR ''$'') s) of
              Some v \<Rightarrow> CFloat v
            | None \<Rightarrow> CFloat NaN)
         \<and> (s = ''$1,234.50'' \<and> numeric_of_str L ''1234.50'' = Some (Fin 1234.5)
            \<longrightarrow> cell_at (rows (fst (map_pnl L df)) ! i) ''pnl_clean'' = CFloat (Fin 1234.5))"
proof -
  have "cell_at (rows (fst (map_pnl L df)) ! i) ''pnl_clean'' = clean_pnl L (CStr s)"
    using assms by (simp add: map_pnl_def rows_assign_nth cell_at_update)
  also have "\<dots> = (case numeric_of_str L (filter (\<lambda>c. c \<noteq> CHR '','' \<and> c \<noteq> CHR ''$'') s) of
              Some v \<Rightarrow> CFloat v | None \<Rightarrow> CFloat NaN)"
    by (simp add: clean_pnl_def remove_two_chars)
  finally show ?thesis by auto
qed

theorem pnl_text_cleaning_witness:
  "cell_at (rows (fst (map_pnl sample_library pnl_frame)) ! 0) ''pnl_clean'' = CFloat (Fin 1234.5)"
proof -
  have a: "dtype_at pnl_frame ''closed pnl'' = Object"
    by (simp add: pnl_frame_def dtype_at_def)
  have b: "0 < length (rows pnl_frame)"
    by (simp add: pnl_frame_def)
  have c: "cell_at (rows pnl_frame ! 0) ''closed pnl'' = CStr ''$1,234.50''"
    by (simp add: pnl_frame_def cell_at_def)
  have d: "numeric_of_str sample_library ''1234.50'' = Some (Fin 1234.5)"
    by (simp add: sample_library_def decimal_example)
  show ?thesis
    using pnl_text_cleaning [OF find_pnl_frame a b c, of sample_library] d by simp
qed

section \<open>The inner join\<close>

lemma length_rows_merge:
  "length (rows (pd_merge l r))
   = sum_list (map (\<lambda>a. length (filter (\<lambda>b. key_of b = key_of a) (rows r))) (rows l))"
  by (simp add: pd_merge_def Let_def length_concat comp_def)

lemma count_key_distinct:
  "distinct (map key_of bs) \<Longrightarrow>
   length (filter (\<lambda>b. key_of b = k) bs) = (if k \<in> key_of ` set bs then 1 else 0)"
  by (induction bs) auto

lemma sum_indicator:
  "sum_list (map (\<lambda>a. if P a then 1 else 0) xs) = length (filter P xs)"
  by (induction xs) auto

lemma not_date_key_x: "c @ ''_x'' \<noteq> ''date_key''"
proof
  assume "c @ ''_x'' = ''date_key''"
  then have "last (c @ ''_x'') = last ''date_key''" by simp
  then show False by simp
qed

lemma not_date_key_y: "c @ ''_y'' \<noteq> ''date_key''"
proof
  assume "c @ ''_y'' = ''date_key''"
  then have "rev (c @ ''_y'') = rev ''date_key''" by simp
  then show False by simp
qed

lemma map_of_rename:
  assumes "f k = k" and "\<And>c. f c = k \<Longrightarrow> c = k"
  shows "map_of (map (apfst f) a) k = map_of a k"
proof (induction a)
  case Nil
  show ?case by simp
next
  case (Cons p a)
  obtain c v where p: "p = (c, v)" by (cases p)
  show ?case
  proof (cases "c = k")
    case True
    with p assms(1) show ?thesis by simp
  next
    case False
    with assms(2) have "f c \<noteq> k" by blast
    with p False Cons show ?thesis by simp
  qed
qed

lemma map_of_absent: "k \<notin> fst ` set ps \<Longrightarrow> map_of ps k = None"
  by (simp add: map_of_eq_None_iff)

lemma key_of_joined:
  assumes "f ''date_key'' = ''date_key''" and "\<And>c. f c = ''date_key'' \<Longrightarrow> c = ''date_key''"
    and "\<And>c. c \<noteq> ''date_key'' \<Longrightarrow> g c \<noteq> ''date_key''"
  shows "key_of (map (apfst f) a @ map (apfst g) (filter (\<lambda>p. fst p \<noteq> ''date_key'') b)) = key_of a"
proof -
  have "map_of (map (apfst g) (filter (\<lambda>p. fst p \<noteq> ''date_key'') b)) ''date_key'' = None"
  proof (rule map_of_absent, rule notI)
    assume "''date_key'' \<in> fst ` set (map (apfst g) (filter (\<lambda>p. fst p \<noteq> ''date_key'') b))"
    then obtain c where "c \<noteq> ''date_key''" "g c = ''date_key''" by force
    with assms(3) show False by blast
  qed
  then show ?thesis
    using map_of_rename [of f "''date_key''" a, OF assms(1,2)]
    by (simp add: key_of_def cell_at_def map_add_def split: option.splits)
qed

lemma key_of_merged_row:
  assumes "m \<in> set (rows (pd_merge l r))"
  shows "\<exists>a \<in> set (rows l). \<exists>b \<in> set (rows r). key_of m = key_of a \<and> key_of b = key_of a"
proof -
  let ?common = "filter (\<lambda>c. c \<in> set (columns r) \<and> c \<noteq> ''date_key'') (columns l)"
  let ?f = "\<lambda>c. if c \<in> set ?common then c @ ''_x'' else c"
  let ?g = "\<lambda>c. if c \<in> set ?common then c @ ''_y'' else c"
  from assms obtain a b where ab: "a \<in> set (rows l)" "b \<in> set (rows r)" "key_of b = key_of a"
    and m: "m = map (apfst ?f) a @ map (apfst ?g) (filter (\<lambda>p. fst p \<noteq> ''date_key'') b)"
    by (auto simp: pd_merge_def Let_def)
  have f1: "?f ''date_key'' = ''date_key''"
    by simp
  have f2: "\<And>c. ?f c = ''date_key'' \<Longrightarrow> c = ''date_key''"
    by (simp add: not_date_key_x split: if_splits)
  have g: "\<And>c. c \<noteq> ''date_key'' \<Longrightarrow> ?g c \<noteq> ''date_key''"
    by (simp add: not_date_key_y)
  have "key_of m = key_of a"
    unfolding m by (rule key_of_joined [of ?f ?g, OF f1 f2 g])
  with ab show ?thesis by blast
qed

lemma keys_assign:
  "c \<noteq> ''date_key'' \<Longrightarrow> map key_of (rows (assign c d f df)) = map key_of (rows df)"
  by (simp add: rows_assign key_of_def cell_at_update o_def)

lemma keys_map_pnl: "map key_of (rows (fst (map_pnl L df))) = map key_of (rows df)"
  by (simp add: map_pnl_def keys_assign split: option.splits)

lemma keys_map_leverage: "map key_of (rows (map_leverage L df)) = map key_of (rows df)"
  by (simp add: map_leverage_def keys_assign split: option.splits)

lemma keys_map_sentiment: "map key_of (rows (map_sentiment L df)) = map key_of (rows df)"
  by (simp add: map_sentiment_def keys_assign split: option.splits)

lemma keys_plot_win_rate:
  "plot_win_rate df = Inr (df', out, ch) \<Longrightarrow> map key_of (rows df') = map key_of (rows df)"
  by (auto simp: plot_win_rate_def Let_def keys_assign split: if_splits)

lemma keys_mapped:
  "map_pnl L m = (df1, w) \<Longrightarrow>
   map key_of (rows (map_sentiment L (map_leverage L df1))) = map key_of (rows m)"
  using keys_map_pnl [of L m] by (simp add: keys_map_sentiment keys_map_leverage)

lemma analyzer_row_count:
  assumes "''date_key'' \<in> set (columns l)" and "''date_key'' \<in> set (columns r)"
  shows "printed (analyze_and_visualize L d l r) ! 1 = MergedRows (length (rows (pd_merge l r)))"
  using assms
  by (simp add: analyze_and_visualize_def Let_def nth_append split: prod.splits sum.splits)

lemma analyzer_table_keys:
  assumes "merged (analyze_and_visualize L d l r) = Some df"
  shows "map key_of (rows df) = map key_of (rows (pd_merge l r))"
  using assms
  by (auto simp: analyze_and_visualize_def Let_def keys_mapped
      split: if_splits prod.splits sum.splits dest!: keys_plot_win_rate)

text \<open>
  C7, as the code has it. The merged table has one row for every pair of a trade row and
  a sentiment row with equal date keys; when no two sentiment rows share a date key, that
  is the number of trade rows whose date key also occurs in the sentiment table. Every
  merged row carries a date key that occurs in both tables. For cleaned tables this count
  is the one the analyzer prints (line 122), and the table it goes on to analyse has
  these rows, with these date keys, and no others.
\<close>

theorem merged_row_count:
  "length (rows (pd_merge l r))
     = sum_list (map (\<lambda>a. length (filter (\<lambda>b. key_of b = key_of a) (rows r))) (rows l))
   \<and> (distinct (map key_of (rows r)) \<longrightarrow>
        length (rows (pd_merge l r))
          = length (filter (\<lambda>a. key_of a \<in> key_of ` set (rows r)) (rows l)))
   \<and> (\<forall>m \<in> set (rows (pd_merge l r)).
        key_of m \<in> key_of ` set (rows l) \<inter> key_of ` set (rows r))
   \<and> (''date_key'' \<in> set (columns l) \<and> ''date_key'' \<in> set (columns r) \<longrightarrow>
        printed (analyze_and_visualize L d l r) ! 1 = MergedRows (length (rows (pd_merge l r))))
   \<and> (\<forall>df. merged (analyze_and_visualize L d l r) = Some df \<longrightarrow>
        map key_of (rows df) = map key_of (rows (pd_merge l r)))"
proof (intro conjI impI ballI allI)
  show "length (rows (pd_merge l r))
     = sum_list (map (\<lambda>a. length (filter (\<lambda>b. key_of b = key_of a) (rows r))) (rows l))"
    by (rule length_rows_merge)
next
  assume "distinct (map key_of (rows r))"
  then show "length (rows (pd_merge l r))
          = length (filter (\<lambda>a. key_of a \<in> key_of ` set (rows r)) (rows l))"
    by (simp add: length_rows_merge count_key_distinct sum_indicator)
next
  fix m assume "m \<in> set (rows (pd_merge l r))"
  from key_of_merged_row [OF this]
  show "key_of m \<in> key_of ` set (rows l) \<inter> key_of ` set (rows r)"
    by (metis IntI imageI)
next
  assume "''date_key'' \<in> set (columns l) \<and> ''date_key'' \<in> set (columns r)"
  then show "printed (analyze_and_visualize L d l r) ! 1 = MergedRows (length (rows (pd_merge l r)))"
    using analyzer_row_count [of l r L d] by blast
next
  fix df assume "merged (analyze_and_visualize L d l r) = Some df"
  then show "map key_of (rows df) = map key_of (rows (pd_merge l r))"
    by (rule analyzer_table_keys)
qed

text \<open>
  C7 as stated fails when a date occurs twice in the sentiment table: three trades and two
  sentiment rows of one day merge to six rows, while three trade rows and two sentiment
  rows (five in all) have their date key in the intersection.
\<close>

theorem merged_row_count_counterexample:
  "length (rows (pd_merge dup_trader dup_sentiment)) = 6
   \<and> length (filter (\<lambda>a. key_of a \<in> key_of ` set (rows dup_sentiment)) (rows dup_trader)) = 3
   \<and> length (filter (\<lambda>b. key_of b \<in> key_of ` set (rows dup_trader)) (rows dup_sentiment)) = 2"
  by (simp add: length_rows_merge dup_trader_def dup_sentiment_def key_of_def cell_at_def)

theorem merged_row_count_witness:
  "distinct (map key_of (rows one_sentiment))
   \<and> length (rows (pd_merge dup_trader one_sentiment)) = 3
   \<and> key_of ` set (rows (pd_merge dup_trader one_sentiment)) = {CTime (Some day1)}
   \<and> printed (analyze_and_visualize sample_library False dup_trader one_sentiment) ! 1 = MergedRows 3"
proof -
  have d: "distinct (map key_of (rows one_sentiment))"
    by (simp add: one_sentiment_def key_of_def cell_at_def day1_def day2_def)
  have k: "key_of ` set (rows dup_trader) = {CTime (Some day1)}"
    by (simp add: dup_trader_def key_of_def cell_at_def)
  have n: "length (filter (\<lambda>a. key_of a \<in> key_of ` set (rows one_sentiment)) (rows dup_trader)) = 3"
    by (simp add: dup_trader_def one_sentiment_def key_of_def cell_at_def)
  have c: "''date_key'' \<in> set (columns dup_trader) \<and> ''date_key'' \<in> set (columns one_sentiment)"
    by (simp add: dup_trader_def one_sentiment_def columns_def)
  note m = merged_row_count [of dup_trader one_sentiment sample_library False]
  from m d have "length (rows (pd_merge dup_trader one_sentiment))
                 = length (filter (\<lambda>a. key_of a \<in> key_of ` set (rows one_sentiment)) (rows dup_trader))"
    by blast
  with n have len: "length (rows (pd_merge dup_trader one_sentiment)) = 3"
    by simp
  then have ne: "rows (pd_merge dup_trader one_sentiment) \<noteq> []"
    by auto
  from m c have "printed (analyze_and_visualize sample_library False dup_trader one_sentiment) ! 1
                 = MergedRows (length (rows (pd_merge dup_trader one_sentiment)))"
    by blast
  with len have p: "printed (analyze_and_visualize sample_library False dup_trader one_sentiment) ! 1
                    = MergedRows 3"
    by simp
  from m have "\<forall>m \<in> set (rows (pd_merge dup_trader one_sentiment)).
                 key_of m \<in> key_of ` set (rows dup_trader) \<inter> key_of ` set (rows one_sentiment)"
    by blast
  then have sub: "\<forall>m \<in> set (rows (pd_merge dup_trader one_sentiment)). key_of m = CTime (Some day1)"
    unfolding k by blast
  have "key_of ` set (rows (pd_merge dup_trader one_sentiment)) = {CTime (Some day1)}"
  proof (rule set_eqI, rule iffI)
    fix c assume "c \<in> key_of ` set (rows (pd_merge dup_trader one_sentiment))"
    with sub show "c \<in> {CTime (Some day1)}" by blast
  next
    fix c assume c: "c \<in> {CTime (Some day1)}"
    from ne obtain r where r: "r \<in> set (rows (pd_merge dup_trader one_sentiment))"
      by (cases "rows (pd_merge dup_trader one_sentiment)") auto
    with sub have "key_of r = CTime (Some day1)" by blast
    with r c show "c \<in> key_of ` set (rows (pd_merge dup_trader one_sentiment))" by force
  qed
  with d len p show ?thesis by blast
qed

text \<open>
  C4. When the two cleaned tables (each with its \<open>date_key\<close> column) share no date key,
  the join is empty: the analyzer prints the banner, the row count 0 and the error
  "Merged DataFrame is still empty", and returns; no chart is saved, \<open>images/\<close> is not
  created, and the table is the bare join, without any derived column.
\<close>

theorem empty_join_aborts:
  assumes "''date_key'' \<in> set (columns trader_df)" and "''date_key'' \<in> set (columns sentiment_df)"
    and "key_of ` set (rows trader_df) \<inter> key_of ` set (rows sentiment_df) = {}"
  shows "analyze_and_visualize L images_exists trader_df sentiment_df =
           \<lparr>printed = [Line ''--- 2. MERGING & MAPPING ---'', MergedRows 0,
                       Line ''ERROR: Merged DataFrame is still empty.''],
            charts = [], made_dir = False,
            merged = Some (pd_merge trader_df sentiment_df), raised = None\<rparr>
         \<and> rows (pd_merge trader_df sentiment_df) = []"
proof -
  have "rows (pd_merge trader_df sentiment_df) = []"
  proof (rule ccontr)
    assume "rows (pd_merge trader_df sentiment_df) \<noteq> []"
    then obtain m where "m \<in> set (rows (pd_merge trader_df sentiment_df))"
      by (cases "rows (pd_merge trader_df sentiment_df)") auto
    from key_of_merged_row [OF this] assms(3) show False by (metis IntI emptyE imageI)
  qed
  then show ?thesis
    using assms(1,2) by (simp add: analyze_and_visualize_def frame_empty_def)
qed

theorem empty_join_aborts_witness:
  "analyze_and_visualize sample_library False dup_trader late_sentiment =
     \<lparr>printed = [Line ''--- 2. MERGING & MAPPING ---'', MergedRows 0,
                 Line ''ERROR: Merged DataFrame is still empty.''],
      charts = [], made_dir = False,
      merged = Some (pd_merge dup_trader late_sentiment), raised = None\<rparr>"
proof -
  have a: "''date_key'' \<in> set (columns dup_trader)"
    by (simp add: dup_trader_def columns_def)
  have b: "''date_key'' \<in> set (columns late_sentiment)"
    by (simp add: late_sentiment_def columns_def)
  have c: "key_of ` set (rows dup_trader) \<inter> key_of ` set (rows late_sentiment) = {}"
    by (simp add: dup_trader_def late_sentiment_def key_of_def cell_at_def day1_def day2_def)
  show ?thesis
    using empty_join_aborts [OF a b c, of sample_library False] by simp
qed

section \<open>The loader and the entry point\<close>

lemma locate_None: "locate w p f = None \<longleftrightarrow> input_missing w p f"
  by (simp add: locate_def input_missing_def split: option.splits)

lemma fix_trader_None: "fix_trader_dates L df = None \<longleftrightarrow> \<not> trader_time_column df"
  by (auto simp: fix_trader_dates_def trader_time_column_def)

lemma fix_trader_converts:
  "trader_time_column df \<Longrightarrow> timestamps_convert L df \<Longrightarrow>
   \<exists>m df'. fix_trader_dates L df = Some (m, Inr df')"
  by (auto simp: fix_trader_dates_def trader_time_column_def timestamps_convert_def)

lemma fix_sentiment_None: "fix_sentiment_dates L df = None \<longleftrightarrow> \<not> sentiment_date_column df"
  by (auto simp: fix_sentiment_dates_def sentiment_date_column_def)

lemma load_failure_result:
  assumes "load_failure L w" and "failure_reached L w"
  shows "snd (load_and_clean_data L w) = Inr None
         \<and> last (fst (load_and_clean_data L w)) \<in> set error_lines"
proof (cases "locate w TRADER_DATA_PATH ''historical_data.csv''")
  case None
  then show ?thesis by (simp add: load_and_clean_data_def error_lines_def)
next
  case (Some tf)
  with assms(2) obtain trader_raw
    where t: "locate w TRADER_DATA_PATH ''historical_data.csv'' = Some (Inr trader_raw)"
    by (cases tf) (simp_all add: failure_reached_def)
  show ?thesis
  proof (cases "locate w SENTIMENT_DATA_PATH ''fear_greed_index.csv''")
    case None
    with t show ?thesis by (simp add: load_and_clean_data_def error_lines_def)
  next
    case (Some sf)
    with assms(2) t obtain sentiment_raw
      where s: "locate w SENTIMENT_DATA_PATH ''fear_greed_index.csv'' = Some (Inr sentiment_raw)"
      by (cases sf) (simp_all add: failure_reached_def)
    let ?t = "rename_columns (normalize_name L) trader_raw"
    let ?s = "rename_columns (normalize_name L) sentiment_raw"
    from assms(2) t s have conv: "timestamps_convert L ?t"
      by (simp add: failure_reached_def)
    show ?thesis
    proof (cases "trader_time_column ?t")
      case False
      then have "fix_trader_dates L ?t = None" by (simp add: fix_trader_None)
      with t s show ?thesis by (simp add: load_and_clean_data_def error_lines_def)
    next
      case True
      from fix_trader_converts [OF True conv] obtain m1 trader_df
        where ft: "fix_trader_dates L ?t = Some (m1, Inr trader_df)" by blast
      have "\<not> input_missing w TRADER_DATA_PATH ''historical_data.csv''"
        and "\<not> input_missing w SENTIMENT_DATA_PATH ''fear_greed_index.csv''"
        using t s by (simp_all flip: locate_None)
      with assms(1) t s True have "\<not> sentiment_date_column ?s"
        by (simp add: load_failure_def)
      then have "fix_sentiment_dates L ?s = None" by (simp add: fix_sentiment_None)
      with t s ft show ?thesis by (simp add: load_and_clean_data_def error_lines_def)
    qed
  qed
qed

lemma undated_located:
  "locate undated_world TRADER_DATA_PATH ''historical_data.csv'' = Some (Inr raw_trader)"
  "locate undated_world SENTIMENT_DATA_PATH ''fear_greed_index.csv'' = Some (Inr undated_sentiment)"
  by (simp_all add: locate_def undated_world_def TRADER_DATA_PATH_def SENTIMENT_DATA_PATH_def)

lemma overflow_located:
  "locate overflow_world TRADER_DATA_PATH ''historical_data.csv'' = Some (Inr overflow_trader)"
  "locate overflow_world SENTIMENT_DATA_PATH ''fear_greed_index.csv'' = Some (Inr undated_sentiment)"
  by (simp_all add: locate_def overflow_world_def TRADER_DATA_PATH_def SENTIMENT_DATA_PATH_def)

lemma undated_columns:
  "columns (rename_columns (normalize_name sample_library) undated_sentiment)
   = [''value'', ''classification'']"
  by (simp add: rename_columns_def normalize_name_def sample_library_def undated_sentiment_def
      columns_def strip_def is_space_def lower_char_def)

lemma raw_trader_renamed:
  "rename_columns (normalize_name sample_library) raw_trader =
     \<lparr>schema = [(''timestamp'', Int64), (''closed pnl'', Float64)],
      rows = [[(''timestamp'', CInt 1714560000000), (''closed pnl'', CFloat (Fin 5))]]\<rparr>"
  by (simp add: rename_columns_def normalize_name_def sample_library_def raw_trader_def
      strip_def is_space_def lower_char_def)

lemma overflow_trader_renamed:
  "rename_columns (normalize_name sample_library) overflow_trader =
     \<lparr>schema = [(''timestamp'', Int64), (''closed pnl'', Float64)],
      rows = [[(''timestamp'', CInt 100000000000000000), (''closed pnl'', CFloat (Fin 5))]]\<rparr>"
  by (simp add: rename_columns_def normalize_name_def sample_library_def overflow_trader_def
      strip_def is_space_def lower_char_def)

lemma undated_failure: "load_failure sample_library undated_world"
  by (simp add: load_failure_def undated_located undated_columns sentiment_date_column_def)

lemma overflow_failure: "load_failure sample_library overflow_world"
  by (simp add: load_failure_def overflow_located undated_columns sentiment_date_column_def)

lemma undated_reached: "failure_reached sample_library undated_world"
  by (simp add: failure_reached_def undated_located raw_trader_renamed timestamps_convert_def
      columns_def dtype_at_def is_numeric_dtype_def column_def cell_at_def to_datetime_column_def
      List.map_filter_def in_ns_range_def)

text \<open>
  C5, as the code has it. Whenever an input is found under neither of its two paths, or a
  table has no recognizable date or time column, and nothing the loader runs before it
  meets that failure raises (a trader file that exists is read; if the sentiment file
  exists too, it is read and the trader timestamps are converted), the loader ends by
  printing one of its four error lines and returns \<open>(None, None)\<close>; the entry point then
  does not call the analyzer: nothing more is printed, no chart is saved, no table is
  merged, and the run ends without an exception.
\<close>

theorem loader_failure_skips_analysis:
  assumes "load_failure L w" and "failure_reached L w"
  shows "snd (load_and_clean_data L w) = Inr None
         \<and> last (fst (load_and_clean_data L w)) \<in> set error_lines
         \<and> main L w = \<lparr>printed = fst (load_and_clean_data L w), charts = [], made_dir = False,
                        merged = None, raised = None\<rparr>"
proof -
  note r = load_failure_result [OF assms]
  obtain out res where lr: "load_and_clean_data L w = (out, res)"
    by (cases "load_and_clean_data L w")
  with r have "res = Inr None" by simp
  with lr have "main L w = \<lparr>printed = out, charts = [], made_dir = False, merged = None, raised = None\<rparr>"
    by (simp add: main_def)
  with r lr show ?thesis by simp
qed

lemma unreadable_failure: "load_failure sample_library unreadable_world"
  by (simp add: load_failure_def input_missing_def unreadable_world_def SENTIMENT_DATA_PATH_def)

lemma unreadable_load:
  "load_and_clean_data sample_library unreadable_world =
     ([Line ''--- 1. LOADING & DIAGNOSING DATA ---''], Inl EmptyDataError)"
  by (simp add: load_and_clean_data_def locate_def unreadable_world_def TRADER_DATA_PATH_def)

text \<open>
  C5 as stated fails where an exception comes first. In the first run the sentiment table
  has no date column, so the configuration is one of the claim; but the trader table has
  a numeric timestamp of 10^17 ms, \<open>pd.to_datetime(unit='ms')\<close> is called without
  \<open>errors='coerce'\<close> before the sentiment table is looked at, and the run ends with
  OutOfBoundsDatetime. In the second run there is no sentiment file, but the trader file
  is read first and \<open>read_csv\<close> raises on it. In neither run is an error line printed
  or anything returned.
\<close>

theorem loader_failure_skips_analysis_counterexample:
  "load_failure sample_library overflow_world
   \<and> load_and_clean_data sample_library overflow_world =
       ([Line ''--- 1. LOADING & DIAGNOSING DATA ---'',
         Line ''-> Using numeric 'timestamp' column for Trader Data...''],
        Inl OutOfBoundsDatetime)
   \<and> raised (main sample_library overflow_world) = Some OutOfBoundsDatetime
   \<and> load_failure sample_library unreadable_world
   \<and> load_and_clean_data sample_library unreadable_world =
       ([Line ''--- 1. LOADING & DIAGNOSING DATA ---''], Inl EmptyDataError)"
proof -
  have l: "load_and_clean_data sample_library overflow_world =
       ([Line ''--- 1. LOADING & DIAGNOSING DATA ---'',
         Line ''-> Using numeric 'timestamp' column for Trader Data...''],
        Inl OutOfBoundsDatetime)"
    by (simp add: load_and_clean_data_def overflow_located overflow_trader_renamed
        fix_trader_dates_def columns_def dtype_at_def is_numeric_dtype_def column_def cell_at_def
        to_datetime_column_def List.map_filter_def in_ns_range_def)
  then have "raised (main sample_library overflow_world) = Some OutOfBoundsDatetime"
    by (simp add: main_def)
  with overflow_failure l unreadable_failure unreadable_load show ?thesis by simp
qed

theorem loader_failure_skips_analysis_witness:
  "load_failure sample_library undated_world \<and> failure_reached sample_library undated_world
   \<and> snd (load_and_clean_data sample_library undated_world) = Inr None
   \<and> raised (main sample_library undated_world) = None
   \<and> charts (main sample_library undated_world) = []"
  using loader_failure_skips_analysis [OF undated_failure undated_reached]
    undated_failure undated_reached by simp

section \<open>The win indicator and the win rate\<close>

lemma win_rate_table:
  assumes "''pnl_clean'' \<in> set (columns df)" and "''sentiment_bucket'' \<in> set (columns df)"
    and "list_all comparable (column df ''pnl_clean'')"
  shows "plot_win_rate df =
           Inr (assign ''is_win'' Bool (\<lambda>r. CBool (gt_zero (cell_at r ''pnl_clean''))) df,
                [Line ''-> Saved professional images/win_rate_by_sentiment.png''],
                [BarChart ''images/win_rate_by_sentiment.png''
                   (mean_by_bucket
                      (assign ''is_win'' Bool (\<lambda>r. CBool (gt_zero (cell_at r ''pnl_clean''))) df)
                      ''is_win'')])"
  using assms by (simp add: plot_win_rate_def Let_def)

lemma is_win_cell:
  "i < length (rows df) \<Longrightarrow>
   cell_at (rows (assign ''is_win'' Bool (\<lambda>r. CBool (gt_zero (cell_at r ''pnl_clean''))) df) ! i) ''is_win''
   = CBool (gt_zero (cell_at (rows df ! i) ''pnl_clean''))"
  by (simp add: rows_assign_nth cell_at_update)

lemma gt_zero_numeric: "numeric_score c = Some x \<Longrightarrow> gt_zero c = (0 < x)"
  by (cases c rule: numeric_score.cases) auto

text \<open>
  C6. In every row whose cleaned profit/loss is a number \<open>x\<close>, the derived \<open>is_win\<close> is
  true exactly when \<open>0 < x\<close>; a profit/loss of exactly zero is not a win. (The indicator
  is derived when \<open>pnl_clean\<close> and \<open>sentiment_bucket\<close> exist and \<open>pnl_clean\<close> is a column
  pandas can compare with 0.)
\<close>

theorem win_indicator_strictly_positive:
  assumes "''pnl_clean'' \<in> set (columns df)" and "''sentiment_bucket'' \<in> set (columns df)"
    and "list_all comparable (column df ''pnl_clean'')"
    and "i < length (rows df)"
    and "numeric_score (cell_at (rows df ! i) ''pnl_clean'') = Some x"
  shows "\<exists>df' out ch. plot_win_rate df = Inr (df', out, ch)
           \<and> cell_at (rows df' ! i) ''is_win'' = CBool (0 < x)
           \<and> (x = 0 \<longrightarrow> cell_at (rows df' ! i) ''is_win'' = CBool False)"
  using win_rate_table [OF assms(1,2,3)] is_win_cell [OF assms(4)] gt_zero_numeric [OF assms(5)]
  by simp

theorem win_indicator_strictly_positive_witness:
  "\<exists>df' out ch. plot_win_rate win_frame = Inr (df', out, ch)
     \<and> cell_at (rows df' ! 0) ''is_win'' = CBool True
     \<and> cell_at (rows df' ! 2) ''is_win'' = CBool False"
proof -
  have a: "''pnl_clean'' \<in> set (columns win_frame)" "''sentiment_bucket'' \<in> set (columns win_frame)"
    by (simp_all add: win_frame_def columns_def)
  have b: "list_all comparable (column win_frame ''pnl_clean'')"
    by (simp add: win_frame_def column_def cell_at_def)
  have i: "0 < length (rows win_frame)" "2 < length (rows win_frame)"
    by (simp_all add: win_frame_def)
  have x: "numeric_score (cell_at (rows win_frame ! 0) ''pnl_clean'') = Some 5"
    "numeric_score (cell_at (rows win_frame ! 2) ''pnl_clean'') = Some 0"
    by (simp_all add: win_frame_def cell_at_def)
  show ?thesis
    using win_indicator_strictly_positive [OF a b i(1) x(1)]
      win_indicator_strictly_positive [OF a b i(2) x(2)]
    by auto
qed

lemma map_filter_bools:
  "List.map_filter num_value (map (\<lambda>r. CBool (w r)) rs) = map (\<lambda>r. Fin (if w r then 1 else 0)) rs"
  by (induction rs) (simp_all add: List.map_filter_def)

lemma foldl_add_bools:
  "foldl float_add (Fin a) (map (\<lambda>r. Fin (if w r then 1 else 0)) rs)
   = Fin (a + real (length (filter w rs)))"
  by (induction rs arbitrary: a) simp_all

lemma mean_bools:
  "rs \<noteq> [] \<Longrightarrow>
   mean_skipna (map (\<lambda>r. CBool (w r)) rs) = Fin (real (length (filter w rs)) / real (length rs))"
  by (simp add: mean_skipna_def map_filter_bools foldl_add_bools)

lemma group_cells_is_win:
  "group_cells (assign ''is_win'' Bool (\<lambda>r. CBool (gt_zero (cell_at r ''pnl_clean''))) df) b ''is_win''
   = map (\<lambda>r. CBool (gt_zero (cell_at r ''pnl_clean''))) (bucket_rows df b)"
  by (simp add: group_cells_def bucket_rows_def rows_assign filter_map o_def cell_at_update)

lemma bucket_present:
  "CStr b \<in> set (column (assign ''is_win'' Bool f df) ''sentiment_bucket'') \<longleftrightarrow> bucket_rows df b \<noteq> []"
proof -
  have "column (assign ''is_win'' Bool f df) ''sentiment_bucket'' = column df ''sentiment_bucket''"
    by (simp add: column_def rows_assign cell_at_update o_def)
  moreover have "CStr b \<in> set (column df ''sentiment_bucket'') \<longleftrightarrow> bucket_rows df b \<noteq> []"
    by (force simp: column_def bucket_rows_def filter_empty_conv)
  ultimately show ?thesis by simp
qed

lemma win_rate_bars:
  "mean_by_bucket (assign ''is_win'' Bool (\<lambda>r. CBool (gt_zero (cell_at r ''pnl_clean''))) df) ''is_win''
   = map (\<lambda>b. (b, Fin (real (length (bucket_wins df b)) / real (length (bucket_rows df b)))))
         (filter (\<lambda>b. bucket_rows df b \<noteq> []) bucket_order)"
  unfolding mean_by_bucket_def bucket_present group_cells_is_win
  by (rule map_cong) (simp_all add: mean_bools bucket_wins_def)

text \<open>
  C10. A row whose cleaned profit/loss is missing (NaN) gets \<open>is_win = False\<close>, and the
  win rate drawn for a bucket is the number of its winning rows divided by the number of
  all its rows, those with a missing profit/loss included.
\<close>

theorem missing_pnl_counts_as_loss:
  assumes "''pnl_clean'' \<in> set (columns df)" and "''sentiment_bucket'' \<in> set (columns df)"
    and "list_all comparable (column df ''pnl_clean'')"
  shows "\<exists>df' out bars.
           plot_win_rate df = Inr (df', out, [BarChart ''images/win_rate_by_sentiment.png'' bars])
           \<and> (\<forall>i < length (rows df).
                 cell_at (rows df ! i) ''pnl_clean'' = CFloat NaN
                 \<longrightarrow> cell_at (rows df' ! i) ''is_win'' = CBool False)
           \<and> bars = map (\<lambda>b. (b, Fin (real (length (bucket_wins df b))
                                       / real (length (bucket_rows df b)))))
                         (filter (\<lambda>b. bucket_rows df b \<noteq> []) bucket_order)"
  using win_rate_table [OF assms] is_win_cell [of _ df] win_rate_bars [of df]
  by simp

theorem missing_pnl_counts_as_loss_witness:
  "\<exists>df' out bars.
     plot_win_rate win_frame = Inr (df', out, [BarChart ''images/win_rate_by_sentiment.png'' bars])
     \<and> cell_at (rows df' ! 1) ''is_win'' = CBool False
     \<and> bars = [(''Fear'', Fin (1 / 2)), (''Greed'', Fin 0)]"
proof -
  have a: "''pnl_clean'' \<in> set (columns win_frame)" "''sentiment_bucket'' \<in> set (columns win_frame)"
    by (simp_all add: win_frame_def columns_def)
  have b: "list_all comparable (column win_frame ''pnl_clean'')"
    by (simp add: win_frame_def column_def cell_at_def)
  have c: "1 < length (rows win_frame) \<and> cell_at (rows win_frame ! 1) ''pnl_clean'' = CFloat NaN"
    by (simp add: win_frame_def cell_at_def)
  have d: "map (\<lambda>b. (b, Fin (real (length (bucket_wins win_frame b))
                                       / real (length (bucket_rows win_frame b)))))
                         (filter (\<lambda>b. bucket_rows win_frame b \<noteq> []) bucket_order)
           = [(''Fear'', Fin (1 / 2)), (''Greed'', Fin 0)]"
    by (simp add: bucket_order_def bucket_rows_def bucket_wins_def win_frame_def cell_at_def)
  show ?thesis
    using missing_pnl_counts_as_loss [OF a b] c d by auto
qed

section \<open>Skipped analyses\<close>

lemma silent_skip_printed:
  "printed (analyze_and_visualize sample_library False plain_trader no_value_sentiment) =
     [Line ''--- 2. MERGING & MAPPING ---'', MergedRows 1,
      Line ''--- 3. GENERATING PROFESSIONAL PLOTS ---'',
      Line ''-> Leverage column missing. Skipping leverage plot.'',
      Line ''SUCCESS: Analysis Finished.'']"
  by code_simp

lemma silent_skip_charts:
  "charts (analyze_and_visualize sample_library False plain_trader no_value_sentiment) = []"
  by code_simp

lemma scatter_key_error:
  "raised (analyze_and_visualize sample_library False lev_trader no_value_sentiment)
   = Some (KeyError ''sentiment_value'')"
  by code_simp

text \<open>
  C8, where the sentiment table has no score column, so that neither \<open>sentiment_value\<close>
  nor \<open>sentiment_bucket\<close> is derived. Without a leverage column the run ends normally
  and saves no chart, but the only skip it reports is that of the leverage plot: the
  mean-PnL and the win-rate analyses are skipped without a line. With a leverage column
  the scatter plot is not skipped: reading \<open>sentiment_value\<close> raises KeyError.
\<close>

theorem skipped_plots_unreported:
  "printed (analyze_and_visualize sample_library False plain_trader no_value_sentiment) =
     [Line ''--- 2. MERGING & MAPPING ---'', MergedRows 1,
      Line ''--- 3. GENERATING PROFESSIONAL PLOTS ---'',
      Line ''-> Leverage column missing. Skipping leverage plot.'',
      Line ''SUCCESS: Analysis Finished.'']
   \<and> charts (analyze_and_visualize sample_library False plain_trader no_value_sentiment) = []
   \<and> raised (analyze_and_visualize sample_library False lev_trader no_value_sentiment)
       = Some (KeyError ''sentiment_value'')"
  using silent_skip_printed silent_skip_charts scatter_key_error by (intro conjI)

theorem skipped_plots_unreported_witness:
  "Line ''-> Leverage column missing. Skipping leverage plot.''
     \<in> set (printed (analyze_and_visualize sample_library False plain_trader no_value_sentiment))
   \<and> length (printed (analyze_and_visualize sample_library False plain_trader no_value_sentiment)) = 5
   \<and> raised (analyze_and_visualize sample_library False lev_trader no_value_sentiment) \<noteq> None"
  using skipped_plots_unreported by simp

end
